theory Spec2Isabelle
  imports Complex_Main "HOL-Library.Char_ord" "HOL-Library.List_Lexorder"
begin

section \<open>Data model of \<^verbatim>\<open>src/hooks/web3/usePools.ts\<close>\<close>

text \<open>
  JavaScript objects have an identity: \<^verbatim>\<open>a === b\<close> on two objects compares the
  references, not the fields. An object is therefore modelled as the pair of its
  reference and its fields, and \<^verbatim>\<open>===\<close> as equality of the references. None of the
  objects below is mutated after it is created, so the pair never goes stale.
\<close>

type_synonym ref = nat

type_synonym 'a obj = "ref \<times> 'a"

definition same_object :: "'a obj \<Rightarrow> 'a obj \<Rightarrow> bool" where
  "same_object a b = (fst a = fst b)"

text \<open>
  \<^verbatim>\<open>Token\<close> and \<^verbatim>\<open>Currency\<close> are classes of the package \<^verbatim>\<open>@uniswap/sdk-core\<close>; the
  source uses \<^verbatim>\<open>address\<close>, \<^verbatim>\<open>wrapped\<close>, \<^verbatim>\<open>equals\<close> and \<^verbatim>\<open>sortsBefore\<close> of them and
  compares tokens with \<^verbatim>\<open>===\<close>. A token is its reference and its address; a currency
  is given by the token its \<^verbatim>\<open>wrapped\<close> getter returns.
\<close>

type_synonym address = string

record Token =
  token_ref :: ref
  address :: address

record Currency =
  wrapped :: Token

text \<open>
  \<^verbatim>\<open>toLowerCase\<close> on the characters an address has: the letters \<^verbatim>\<open>A\<close> to \<^verbatim>\<open>Z\<close>
  become \<^verbatim>\<open>a\<close> to \<^verbatim>\<open>z\<close>, every other character stays.
\<close>

definition lowerChar :: "char \<Rightarrow> char" where
  "lowerChar c =
     (case map_of (zip ''ABCDEFGHIJKLMNOPQRSTUVWXYZ'' ''abcdefghijklmnopqrstuvwxyz'') c of
        None \<Rightarrow> c | Some l \<Rightarrow> l)"

definition toLowerCase :: "string \<Rightarrow> string" where
  "toLowerCase s = map lowerChar s"

text \<open>
  Modelled from the spec: the package is not among the sources. Two tokens are the same
  underlying asset when their addresses are equal, and the pair is ordered by a total
  order over the addresses, the numerically smaller address first. An address is
  written in mixed case (the case of the letters is a checksum), so both comparisons are
  on the lower-cased strings, as the package makes them; on two well-formed addresses
  the order of the lower-cased strings is the order of the numbers they denote
  (\<open>address_order_numeric\<close> below).
\<close>

definition equals :: "Token \<Rightarrow> Token \<Rightarrow> bool" where
  "equals a b = (toLowerCase (address a) = toLowerCase (address b))"

definition sortsBefore :: "Token \<Rightarrow> Token \<Rightarrow> bool" where
  "sortsBefore a b = (toLowerCase (address a) < toLowerCase (address b))"

text \<open>
  The number an address denotes: a well-formed address is \<^verbatim>\<open>0x\<close> followed by 40
  hexadecimal digits, read with the most significant digit first.
\<close>

definition isHexDigit :: "char \<Rightarrow> bool" where
  "isHexDigit c = (CHR ''0'' \<le> c \<and> c \<le> CHR ''9'' \<or> CHR ''a'' \<le> c \<and> c \<le> CHR ''f'')"

definition digitValue :: "char \<Rightarrow> nat" where
  "digitValue c = (if c \<le> CHR ''9'' then of_char c - 48 else of_char c - 87)"

fun hexValue :: "string \<Rightarrow> nat" where
  "hexValue [] = 0"
| "hexValue (c # cs) = digitValue c * 16 ^ length cs + hexValue cs"

definition isAddress :: "string \<Rightarrow> bool" where
  "isAddress s =
     (length s = 42 \<and> take 2 s = ''0x'' \<and> list_all isHexDigit (drop 2 (toLowerCase s)))"

definition addressValue :: "string \<Rightarrow> nat" where
  "addressValue s = hexValue (drop 2 (toLowerCase s))"

text \<open>\<^verbatim>\<open>BigNumberish\<close> values (fee, tick spacing) and \<^verbatim>\<open>JSBI\<close> integers are integers.\<close>

record PoolKeyStruct =
  currency0 :: address
  currency1 :: address
  fee :: int
  tickSpacing :: int
  hooks :: string

record Pool =
  token0 :: Token
  token1 :: Token
  pool_fee :: int
  sqrtRatioX96 :: int
  pool_liquidity :: int
  pool_tickSpacing :: int
  tickCurrent :: int

datatype error = InvalidPool | CallFailed | DecodeFailed | EncodeFailed

text \<open>
  Modelled from the spec: the class \<^verbatim>\<open>Pool\<close> of \<^verbatim>\<open>src/entities/pool\<close> is not among the
  sources. Its constructor validates the invariants of price, liquidity and tick and
  fails with an invalid-pool error when they are violated; otherwise the object holds the
  values it was given. The validation is the parameter \<open>ok\<close>.
\<close>

definition new_Pool ::
  "(Pool \<Rightarrow> bool) \<Rightarrow> Token \<Rightarrow> Token \<Rightarrow> int \<Rightarrow> int \<Rightarrow> int \<Rightarrow> int \<Rightarrow> int \<Rightarrow> error + Pool" where
  "new_Pool ok tokenA tokenB feeAmount sqrtPrice liq spacing tck =
     (let pool = \<lparr>token0 = tokenA, token1 = tokenB, pool_fee = feeAmount,
                  sqrtRatioX96 = sqrtPrice, pool_liquidity = liq,
                  pool_tickSpacing = spacing, tickCurrent = tck\<rparr>
      in if ok pool then Inr pool else Inl InvalidPool)"

section \<open>The class \<^verbatim>\<open>PoolCache\<close>\<close>

text \<open>
  The two static arrays, most recent entry first. \<open>next_ref\<close> is the allocator of the
  runtime: an object literal gets a reference that no earlier object has.
\<close>

record PoolCache =
  next_ref :: ref
  pools :: "Pool list"
  poolKeys :: "PoolKeyStruct obj list"

definition MAX_ENTRIES :: nat where
  "MAX_ENTRIES = 128"

definition emptyCache :: PoolCache where
  "emptyCache = \<lparr>next_ref = 0, pools = [], poolKeys = []\<rparr>"

definition keyStruct :: "Token \<Rightarrow> Token \<Rightarrow> int \<Rightarrow> int \<Rightarrow> string \<Rightarrow> PoolKeyStruct" where
  "keyStruct tokenA tokenB feeAmount spacing hookAddr =
     \<lparr>currency0 = address tokenA, currency1 = address tokenB, fee = feeAmount,
      tickSpacing = spacing, hooks = hookAddr\<rparr>"

text \<open>
  \<^verbatim>\<open>getPoolKeys\<close>: truncate when the array is longer than \<open>MAX_ENTRIES\<close>
  (\<^verbatim>\<open>slice(0, MAX_ENTRIES / 2)\<close>), build the key object, look for an entry that is
  \<^verbatim>\<open>===\<close> the new object, return it when found, else \<^verbatim>\<open>unshift\<close> the new object.
\<close>

definition getPoolKeys ::
  "Token \<Rightarrow> Token \<Rightarrow> int \<Rightarrow> int \<Rightarrow> string \<Rightarrow> PoolCache \<Rightarrow> PoolKeyStruct obj \<times> PoolCache" where
  "getPoolKeys tokenA tokenB feeAmount spacing hookAddr c =
     (let c1 = (if length (poolKeys c) > MAX_ENTRIES
                then c\<lparr>poolKeys := take (MAX_ENTRIES div 2) (poolKeys c)\<rparr> else c);
          key = (next_ref c1, keyStruct tokenA tokenB feeAmount spacing hookAddr);
          c2 = c1\<lparr>next_ref := Suc (next_ref c1)\<rparr>
      in case find (\<lambda>currentKey. same_object currentKey key) (poolKeys c2) of
           Some found \<Rightarrow> (found, c2)
         | None \<Rightarrow> (key, c2\<lparr>poolKeys := key # poolKeys c2\<rparr>))"

text \<open>
  \<^verbatim>\<open>getPool\<close>: the same truncation on the pool array, a search by the two token
  references, fee, price, liquidity and tick, and on a miss the construction, which may
  throw; the new pool goes to the front.
\<close>

definition getPool ::
  "(Pool \<Rightarrow> bool) \<Rightarrow> Token \<Rightarrow> Token \<Rightarrow> int \<Rightarrow> int \<Rightarrow> int \<Rightarrow> int \<Rightarrow> int \<Rightarrow> PoolCache
     \<Rightarrow> (error + Pool) \<times> PoolCache" where
  "getPool ok tokenA tokenB feeAmount sqrtPrice liq spacing tck c =
     (let c1 = (if length (pools c) > MAX_ENTRIES
                then c\<lparr>pools := take (MAX_ENTRIES div 2) (pools c)\<rparr> else c)
      in case find (\<lambda>pool. token_ref (token0 pool) = token_ref tokenA \<and>
                            token_ref (token1 pool) = token_ref tokenB \<and>
                            pool_fee pool = feeAmount \<and>
                            sqrtRatioX96 pool = sqrtPrice \<and>
                            pool_liquidity pool = liq \<and>
                            tickCurrent pool = tck) (pools c1) of
           Some found \<Rightarrow> (Inr found, c1)
         | None \<Rightarrow>
             (case new_Pool ok tokenA tokenB feeAmount sqrtPrice liq spacing tck of
                Inl e \<Rightarrow> (Inl e, c1)
              | Inr pool \<Rightarrow> (Inr pool, c1\<lparr>pools := pool # pools c1\<rparr>)))"

text \<open>A sequence of \<^verbatim>\<open>getPoolKeys\<close> calls, each on the cache the one before left.\<close>

type_synonym key_args = "Token \<times> Token \<times> int \<times> int \<times> string"




text \<open>Every stored key was allocated before the next reference to be handed out.\<close>

definition refs_allocated :: "PoolCache \<Rightarrow> bool" where
  "refs_allocated c = list_all (\<lambda>k. fst k < next_ref c) (poolKeys c)"

section \<open>The hook \<^verbatim>\<open>usePool\<close>\<close>

datatype PoolState = LOADING | NOT_EXISTS | EXISTS | INVALID

text \<open>
  The decoded \<^verbatim>\<open>getSlot0\<close> result, of which the hook reads \<^verbatim>\<open>sqrtPriceX96\<close> (tested
  for absence) and \<^verbatim>\<open>tick\<close>; the decoded \<^verbatim>\<open>getLiquidity\<close> result is the integer that
  \<^verbatim>\<open>JSBI.BigInt\<close> reads from it. A decoded result is an object, hence truthy.
\<close>

record Slot0Result =
  sqrtPriceX96 :: "int option"
  tick :: int

record 'r tracker =
  result :: "'r option"
  loading :: bool
  valid :: bool

text \<open>The two \<^verbatim>\<open>useState\<close> cells; \<open>None\<close> is \<^verbatim>\<open>undefined\<close>.\<close>

record hook_state =
  slot0 :: "Slot0Result tracker option"
  liquidity :: "int tracker option"

text \<open>
  Truthiness, as \<^verbatim>\<open>&&\<close> and \<^verbatim>\<open>!\<close> test it: \<^verbatim>\<open>undefined\<close>, the number zero and the
  empty string are falsy.
\<close>

definition truthy_num :: "int option \<Rightarrow> bool" where
  "truthy_num v = (case v of None \<Rightarrow> False | Some n \<Rightarrow> n \<noteq> 0)"

definition truthy_str :: "string option \<Rightarrow> bool" where
  "truthy_str v = (case v of None \<Rightarrow> False | Some s \<Rightarrow> s \<noteq> [])"

text \<open>The memo \<^verbatim>\<open>poolToken\<close> (lines 108 to 122).\<close>

definition poolToken ::
  "int option \<Rightarrow> Currency option \<Rightarrow> Currency option \<Rightarrow> int option \<Rightarrow> int option \<Rightarrow>
     string option \<Rightarrow> key_args option" where
  "poolToken chainId currencyA currencyB feeAmount spacing hookAddr =
     (if \<not> truthy_num chainId then None
      else
        (case currencyA of None \<Rightarrow> None | Some cA \<Rightarrow>
        (case currencyB of None \<Rightarrow> None | Some cB \<Rightarrow>
        (case feeAmount of None \<Rightarrow> None | Some f \<Rightarrow>
        (case spacing of None \<Rightarrow> None | Some ts \<Rightarrow>
        (case hookAddr of None \<Rightarrow> None | Some h \<Rightarrow>
           if f \<noteq> 0 \<and> ts \<noteq> 0 \<and> h \<noteq> [] then
             (let tokenA = wrapped cA; tokenB = wrapped cB
              in if equals tokenA tokenB then None
                 else if sortsBefore tokenA tokenB
                      then Some (tokenA, tokenB, f, ts, h)
                      else Some (tokenB, tokenA, f, ts, h))
           else None))))))"

text \<open>The memo \<^verbatim>\<open>poolKey\<close> (lines 124 to 134).\<close>

definition poolKey :: "key_args option \<Rightarrow> PoolKeyStruct option" where
  "poolKey pt = (case pt of None \<Rightarrow> None
                 | Some (t0, t1, f, ts, h) \<Rightarrow>
                     Some \<lparr>currency0 = address t0, currency1 = address t1, fee = f,
                           tickSpacing = ts, hooks = h\<rparr>)"

text \<open>
  \<^verbatim>\<open>toId\<close> (lines 237 to 254): \<^verbatim>\<open>undefined\<close> for no key, else the hash of the encoded
  five fields. \<^verbatim>\<open>defaultAbiCoder.encode\<close> and \<^verbatim>\<open>keccak256\<close> belong to the package
  \<^verbatim>\<open>ethers\<close> and are parameters; the encoder is called with the types \<^verbatim>\<open>address\<close>,
  \<^verbatim>\<open>address\<close>, \<^verbatim>\<open>uint24\<close>, \<^verbatim>\<open>uint24\<close>, \<^verbatim>\<open>address\<close> and may throw on a value that does
  not fit its type. Nothing in \<^verbatim>\<open>toId\<close> catches that.
\<close>

definition toId ::
  "(address \<times> address \<times> int \<times> int \<times> string \<Rightarrow> error + string) \<Rightarrow> (string \<Rightarrow> string) \<Rightarrow>
     PoolKeyStruct option \<Rightarrow> error + string option" where
  "toId encode keccak256 pk =
     (case pk of None \<Rightarrow> Inr None
      | Some k \<Rightarrow>
          (case encode (currency0 k, currency1 k, fee k, tickSpacing k, hooks k) of
             Inl e \<Rightarrow> Inl e
           | Inr params \<Rightarrow> Inr (Some (keccak256 params))))"

text \<open>
  The effect (lines 142 to 168), up to the two calls: it resets both cells when the
  contract, the identifier, the provider, the chain or the key is missing, and
  otherwise marks both as loading and issues the two reads. The flag returned says
  whether the reads were issued.
\<close>

definition effect ::
  "bool \<Rightarrow> string option \<Rightarrow> bool \<Rightarrow> int option \<Rightarrow> PoolKeyStruct option \<Rightarrow> hook_state
     \<Rightarrow> hook_state \<times> bool" where
  "effect contract ident provider chainId pk st =
     (if \<not> contract \<or> \<not> truthy_str ident \<or> \<not> provider \<or> \<not> truthy_num chainId \<or> pk = None
      then (st\<lparr>slot0 := None, liquidity := None\<rparr>, False)
      else (st\<lparr>slot0 := Some \<lparr>result = None, loading = True, valid = True\<rparr>,
               liquidity := Some \<lparr>result = None, loading = True, valid = True\<rparr>\<rparr>, True))"

text \<open>
  The promise chain (lines 170 to 193). Each \<^verbatim>\<open>provider.call\<close> is fulfilled with raw
  bytes or rejected; \<^verbatim>\<open>Promise.all\<close> is fulfilled when both are and rejected when
  either is. The \<^verbatim>\<open>then\<close> callback decodes both results (a decoder may throw) before
  it sets either cell; the \<^verbatim>\<open>catch\<close> callback handles a rejection and an exception of
  the \<^verbatim>\<open>then\<close> callback alike.
\<close>

type_synonym raw = string

datatype 'a settled = Fulfilled 'a | Rejected

definition promise_all :: "raw settled \<Rightarrow> raw settled \<Rightarrow> error + raw \<times> raw" where
  "promise_all s0 lts = (case s0 of Rejected \<Rightarrow> Inl CallFailed
                         | Fulfilled r0 \<Rightarrow>
                             (case lts of Rejected \<Rightarrow> Inl CallFailed
                              | Fulfilled rl \<Rightarrow> Inr (r0, rl)))"

definition onFulfilled ::
  "(raw \<Rightarrow> error + Slot0Result) \<Rightarrow> (raw \<Rightarrow> error + int) \<Rightarrow> raw \<times> raw \<Rightarrow> hook_state
     \<Rightarrow> error + hook_state" where
  "onFulfilled decodeSlot0 decodeLiquidity rs st =
     (case decodeSlot0 (fst rs) of Inl e \<Rightarrow> Inl e
      | Inr resolvedSlot0Decoded \<Rightarrow>
          (case decodeLiquidity (snd rs) of Inl e \<Rightarrow> Inl e
           | Inr resolvedLiquidityDecoded \<Rightarrow>
               Inr (st\<lparr>slot0 := Some \<lparr>result = Some resolvedSlot0Decoded,
                                       loading = False, valid = True\<rparr>,
                        liquidity := Some \<lparr>result = Some resolvedLiquidityDecoded,
                                           loading = False, valid = True\<rparr>\<rparr>)))"

definition onRejected :: "hook_state \<Rightarrow> hook_state" where
  "onRejected st = st\<lparr>slot0 := Some \<lparr>result = None, loading = False, valid = False\<rparr>,
                      liquidity := Some \<lparr>result = None, loading = False, valid = False\<rparr>\<rparr>"

definition settle ::
  "(raw \<Rightarrow> error + Slot0Result) \<Rightarrow> (raw \<Rightarrow> error + int) \<Rightarrow> raw settled \<Rightarrow> raw settled
     \<Rightarrow> hook_state \<Rightarrow> hook_state" where
  "settle decodeSlot0 decodeLiquidity s0 lts st =
     (case promise_all s0 lts of Inl e \<Rightarrow> onRejected st
      | Inr rs \<Rightarrow>
          (case onFulfilled decodeSlot0 decodeLiquidity rs st of
             Inl e \<Rightarrow> onRejected st
           | Inr st' \<Rightarrow> st'))"

text \<open>\<^verbatim>\<open>try { ... } catch (error) { ... }\<close>\<close>

definition try_catch :: "error + 'a \<Rightarrow> (error \<Rightarrow> error + 'a) \<Rightarrow> error + 'a" where
  "try_catch body handler = (case body of Inl e \<Rightarrow> handler e | Inr v \<Rightarrow> Inr v)"

text \<open>
  The memo that \<^verbatim>\<open>usePool\<close> returns (lines 196 to 234). It reads and updates the
  static cache; \<open>Inl\<close> would be an exception leaving the hook.
\<close>

definition usePool_result ::
  "(Pool \<Rightarrow> bool) \<Rightarrow> key_args option \<Rightarrow> PoolKeyStruct option \<Rightarrow> hook_state \<Rightarrow> PoolCache
     \<Rightarrow> (error + PoolState \<times> Pool option) \<times> PoolCache" where
  "usePool_result ok pt pk st cache =
     (case pt of None \<Rightarrow> (Inr (INVALID, None), cache)
      | Some (t0, t1, f, _, _) \<Rightarrow>
     (case slot0 st of None \<Rightarrow> (Inr (INVALID, None), cache)
      | Some s \<Rightarrow>
     (case liquidity st of None \<Rightarrow> (Inr (INVALID, None), cache)
      | Some l \<Rightarrow>
          if \<not> valid s \<or> \<not> valid l then (Inr (INVALID, None), cache)
          else if loading s \<or> loading l then (Inr (LOADING, None), cache)
          else
     (case result s of None \<Rightarrow> (Inr (NOT_EXISTS, None), cache)
      | Some slot0d \<Rightarrow>
     (case result l of None \<Rightarrow> (Inr (NOT_EXISTS, None), cache)
      | Some liquidityd \<Rightarrow>
     (case sqrtPriceX96 slot0d of None \<Rightarrow> (Inr (NOT_EXISTS, None), cache)
      | Some price \<Rightarrow>
          if price = 0 then (Inr (NOT_EXISTS, None), cache)
          else
            (let (r, cache') =
                   getPool ok t0 t1 f price liquidityd
                     (case pk of None \<Rightarrow> 60 | Some k \<Rightarrow> tickSpacing k) (tick slot0d) cache
             in (try_catch
                   (case r of Inl e \<Rightarrow> Inl e | Inr pool \<Rightarrow> Inr (EXISTS, Some pool))
                   (\<lambda>e. Inr (NOT_EXISTS, None)), cache'))))))))"

text \<open>
  One evaluation of the hook on its five arguments, the chain and the two cells: the
  memos \<^verbatim>\<open>poolToken\<close>, \<^verbatim>\<open>poolKey\<close> and \<^verbatim>\<open>id\<close> in this order, then the memo that is
  returned. The effect runs after the hook has returned. An exception of the \<^verbatim>\<open>id\<close>
  memo ends the evaluation.
\<close>

definition usePool ::
  "(Pool \<Rightarrow> bool) \<Rightarrow> (address \<times> address \<times> int \<times> int \<times> string \<Rightarrow> error + string) \<Rightarrow>
     (string \<Rightarrow> string) \<Rightarrow> int option \<Rightarrow> Currency option \<Rightarrow> Currency option \<Rightarrow> int option \<Rightarrow>
     int option \<Rightarrow> string option \<Rightarrow> hook_state \<Rightarrow> PoolCache
     \<Rightarrow> (error + PoolState \<times> Pool option) \<times> PoolCache" where
  "usePool ok encode keccak256 chainId currencyA currencyB feeAmount spacing hookAddr st cache =
     (let pt = poolToken chainId currencyA currencyB feeAmount spacing hookAddr;
          pk = poolKey pt
      in case toId encode keccak256 pk of
           Inl e \<Rightarrow> (Inl e, cache)
         | Inr ident \<Rightarrow> usePool_result ok pt pk st cache)"

text \<open>
  The hook over time. The runtime keeps the promises that have not settled: every run
  of the effect that issues reads adds one, and a settlement removes it and runs the
  callbacks. The source attaches nothing to a promise that would tell which run of the
  effect it came from.
\<close>

record runtime =
  cells :: hook_state
  inflight :: "nat list"
  issued :: nat

datatype event =
    DepsChanged bool "string option" bool "int option" "PoolKeyStruct option"
  | Settled nat "raw settled" "raw settled"

fun step ::
  "(raw \<Rightarrow> error + Slot0Result) \<Rightarrow> (raw \<Rightarrow> error + int) \<Rightarrow> event \<Rightarrow> runtime \<Rightarrow> runtime option" where
  "step decodeSlot0 decodeLiquidity (DepsChanged contract ident provider chainId pk) rt =
     (let (st, started) = effect contract ident provider chainId pk (cells rt)
      in Some (if started
               then rt\<lparr>cells := st, inflight := inflight rt @ [issued rt],
                       issued := Suc (issued rt)\<rparr>
               else rt\<lparr>cells := st\<rparr>))"
| "step decodeSlot0 decodeLiquidity (Settled n s0 lts) rt =
     (if n \<in> set (inflight rt)
      then Some (rt\<lparr>cells := settle decodeSlot0 decodeLiquidity s0 lts (cells rt),
                    inflight := removeAll n (inflight rt)\<rparr>)
      else None)"

fun run ::
  "(raw \<Rightarrow> error + Slot0Result) \<Rightarrow> (raw \<Rightarrow> error + int) \<Rightarrow> event list \<Rightarrow> runtime \<Rightarrow> runtime option" where
  "run decodeSlot0 decodeLiquidity [] rt = Some rt"
| "run decodeSlot0 decodeLiquidity (e # es) rt =
     (case step decodeSlot0 decodeLiquidity e rt of None \<Rightarrow> None
      | Some rt' \<Rightarrow> run decodeSlot0 decodeLiquidity es rt')"

definition initial :: runtime where
  "initial = \<lparr>cells = \<lparr>slot0 = None, liquidity = None\<rparr>, inflight = [], issued = 0\<rparr>"

section \<open>The theme provider of \<^verbatim>\<open>src/theme/index.tsx\<close>\<close>

text \<open>
  A theme is a JavaScript object: a finite map from property names to values. Reading a
  property that is not there gives \<^verbatim>\<open>undefined\<close>; the spread \<^verbatim>\<open>{...a, ...b}\<close> copies
  the properties of \<^verbatim>\<open>a\<close> and then those of \<^verbatim>\<open>b\<close>, so that \<^verbatim>\<open>b\<close> wins on a name both
  have.
\<close>

datatype js_value =
    Undefined | Null | Boolean bool | Str string | Num real | Obj "(string \<times> js_value) list"

type_synonym js_object = "string \<rightharpoonup> js_value"

definition getProp :: "js_object \<Rightarrow> string \<Rightarrow> js_value" where
  "getProp obj name = (case obj name of None \<Rightarrow> Undefined | Some v \<Rightarrow> v)"

fun truthy :: "js_value \<Rightarrow> bool" where
  "truthy Undefined = False"
| "truthy Null = False"
| "truthy (Boolean b) = b"
| "truthy (Str s) = (s \<noteq> [])"
| "truthy (Num n) = (n \<noteq> 0)"
| "truthy (Obj props) = True"

definition spread :: "js_object \<Rightarrow> js_object \<Rightarrow> js_object" where
  "spread a b = a ++ b"

definition lightTheme :: js_object where
  "lightTheme = [''primary'' \<mapsto> Str ''#FFFFFF'', ''secondary'' \<mapsto> Str ''#2ecc71'',
                 ''tertiary'' \<mapsto> Str ''#f1c40f'', ''background'' \<mapsto> Str ''#12131A'',
                 ''background2'' \<mapsto> Str ''#323232'', ''text'' \<mapsto> Str ''#34495e'',
                 ''textInverted'' \<mapsto> Str ''#ffffff'']"

definition defaultBorderRadius :: js_value where
  "defaultBorderRadius = Obj [(''xsmall'', Num 0.5), (''small'', Num 0.75),
                              (''medium'', Num 1), (''large'', Num 1.5)]"

definition gapValues :: js_value where
  "gapValues = Obj [(''xs'', Str ''4px''), (''sm'', Str ''8px''), (''md'', Str ''12px''),
                    (''lg'', Str ''24px''), (''xl'', Str ''32px'')]"

definition defaultTheme :: js_object where
  "defaultTheme =
     (spread [''grids'' \<mapsto> gapValues] lightTheme)(''borderRadius'' \<mapsto> defaultBorderRadius)"

definition toDefaultTheme :: "js_object \<Rightarrow> js_object" where
  "toDefaultTheme theme =
     theme(''borderRadius'' \<mapsto> (if truthy (getProp theme ''borderRadius'')
                                  then getProp theme ''borderRadius'' else defaultBorderRadius),
           ''grids'' \<mapsto> (if truthy (getProp theme ''grids'')
                           then getProp theme ''grids'' else gapValues))"

text \<open>
  \<^verbatim>\<open>Provider\<close>: the value it hands down, from the \<^verbatim>\<open>theme\<close> prop and the theme of the
  enclosing context, \<^verbatim>\<open>toDefaultTheme({...theme, ...themeCtx})\<close>.
\<close>

definition Provider :: "js_object \<Rightarrow> js_object \<Rightarrow> js_object" where
  "Provider theme themeCtx = toDefaultTheme (spread theme themeCtx)"

section \<open>Concrete inputs\<close>

text \<open>Three tokens of one chain, by their addresses, and the zero address for no hook.\<close>

definition usdc :: Token where
  "usdc = \<lparr>token_ref = 1, address = ''0xA0b86991c6218b36c1d19D4a2e9Eb0cE3606eB48''\<rparr>"

definition weth :: Token where
  "weth = \<lparr>token_ref = 2, address = ''0xC02aaA39b223FE8D0A0e5C4F27eAD9083C756Cc2''\<rparr>"

definition dai :: Token where
  "dai = \<lparr>token_ref = 3, address = ''0x6B175474E89094C44Da98b954EedeAC495271d0F''\<rparr>"

text \<open>Two tokens whose addresses compare one way as written and the other way lower-cased.\<close>

definition usdt :: Token where
  "usdt = \<lparr>token_ref = 4, address = ''0xdAC17F958D2ee523a2206206994597C13D831ec7''\<rparr>"

definition zrx :: Token where
  "zrx = \<lparr>token_ref = 5, address = ''0xE41d2489571d322189246DaFA5ebDe1F4699F498''\<rparr>"

definition noHook :: string where
  "noHook = ''0x0000000000000000000000000000000000000000''"



text \<open>A decoder for the slot: price 5 and tick 7 from \<^verbatim>\<open>0x05\<close>, price 0 from
  \<^verbatim>\<open>0x00\<close>, an exception on anything else.\<close>

definition exampleDecodeSlot0 :: "raw \<Rightarrow> error + Slot0Result" where
  "exampleDecodeSlot0 r =
     (if r = ''0x05'' then Inr \<lparr>sqrtPriceX96 = Some 5, tick = 7\<rparr>
      else if r = ''0x00'' then Inr \<lparr>sqrtPriceX96 = Some 0, tick = 0\<rparr>
      else Inl DecodeFailed)"

definition exampleDecodeLiquidity :: "raw \<Rightarrow> error + int" where
  "exampleDecodeLiquidity r =
     (if r = ''0x09'' then Inr 9 else if r = ''0x00'' then Inr 0 else Inl DecodeFailed)"

text \<open>
  An encoder that checks the fee and the tick spacing against the range of \<^verbatim>\<open>uint24\<close>,
  the type the source names for both, and throws outside it, as the encoder of
  \<^verbatim>\<open>ethers\<close> does (``value out-of-bounds''). The bytes are a stand-in.
\<close>

definition uint24Encode :: "address \<times> address \<times> int \<times> int \<times> string \<Rightarrow> error + string" where
  "uint24Encode k =
     (if 0 \<le> fst (snd (snd k)) \<and> fst (snd (snd k)) < 2 ^ 24 \<and>
         0 \<le> fst (snd (snd (snd k))) \<and> fst (snd (snd (snd k))) < 2 ^ 24
      then Inr (fst k @ fst (snd k) @ snd (snd (snd (snd k))))
      else Inl EncodeFailed)"

definition exampleKeccak :: "string \<Rightarrow> string" where
  "exampleKeccak params = ''0x'' @ params"

text \<open>A constructor check: liquidity and price are not negative.\<close>

definition exampleOk :: "Pool \<Rightarrow> bool" where
  "exampleOk pool = (0 \<le> pool_liquidity pool \<and> 0 \<le> sqrtRatioX96 pool)"

definition resolved :: "int \<Rightarrow> int \<Rightarrow> int \<Rightarrow> hook_state" where
  "resolved price tck liq =
     \<lparr>slot0 = Some \<lparr>result = Some \<lparr>sqrtPriceX96 = Some price, tick = tck\<rparr>,
                     loading = False, valid = True\<rparr>,
      liquidity = Some \<lparr>result = Some liq, loading = False, valid = True\<rparr>\<rparr>"

section \<open>The key cache\<close>

text \<open>A key object that was just allocated is not in the array: the search misses.\<close>

lemma find_fresh_None:
  "list_all (\<lambda>k. fst k < n) ks \<Longrightarrow> find (\<lambda>currentKey. same_object currentKey (n, v)) ks = None"
  by (induction ks) (auto simp: same_object_def)

lemma list_all_take: "list_all P xs \<Longrightarrow> list_all P (take n xs)"
  by (auto simp: list_all_iff dest: in_set_takeD)

lemma getPoolKeys_inserts:
  assumes "refs_allocated c"
  shows "getPoolKeys tokenA tokenB feeAmount spacing hookAddr c =
          ((next_ref c, keyStruct tokenA tokenB feeAmount spacing hookAddr),
           c\<lparr>next_ref := Suc (next_ref c),
             poolKeys := (next_ref c, keyStruct tokenA tokenB feeAmount spacing hookAddr) #
                (if length (poolKeys c) > MAX_ENTRIES then take (MAX_ENTRIES div 2) (poolKeys c)
                 else poolKeys c)\<rparr>)"
  using assms
  by (simp add: getPoolKeys_def refs_allocated_def Let_def find_fresh_None list_all_take)

lemma refs_allocated_getPoolKeys:
  assumes "refs_allocated c"
  shows "refs_allocated (snd (getPoolKeys tokenA tokenB feeAmount spacing hookAddr c))"
  using assms
  by (auto simp: getPoolKeys_inserts refs_allocated_def list_all_iff dest!: in_set_takeD)















text \<open>
  On a cache whose keys were all allocated earlier, a second call with the same
  arguments never returns the object of the first.
\<close>

lemma getPoolKeys_never_reuses:
  assumes "refs_allocated c"
  shows "\<not> same_object
             (fst (getPoolKeys tokenA tokenB feeAmount spacing hookAddr c))
             (fst (getPoolKeys tokenA tokenB feeAmount spacing hookAddr
                     (snd (getPoolKeys tokenA tokenB feeAmount spacing hookAddr c))))"
proof -
  let ?c = "snd (getPoolKeys tokenA tokenB feeAmount spacing hookAddr c)"
  have "refs_allocated ?c"
    using assms by (rule refs_allocated_getPoolKeys)
  then have "fst (fst (getPoolKeys tokenA tokenB feeAmount spacing hookAddr ?c)) = next_ref ?c"
    by (simp add: getPoolKeys_inserts)
  moreover have "next_ref ?c = Suc (next_ref c)"
    using assms by (simp add: getPoolKeys_inserts)
  moreover have "fst (fst (getPoolKeys tokenA tokenB feeAmount spacing hookAddr c)) = next_ref c"
    using assms by (simp add: getPoolKeys_inserts)
  ultimately show ?thesis
    by (simp add: same_object_def)
qed

text \<open>
  Claim C1 at a concrete input: two calls of \<^verbatim>\<open>getPoolKeys\<close> with the same five
  arguments on an empty cache. The second call compares its newly built object by
  reference with the stored one, misses, and returns a second object with the same
  fields; the array then holds both.
\<close>

theorem getPoolKeys_equal_arguments_new_object:
  "fst (getPoolKeys usdc weth 3000 60 noHook emptyCache) = (0, keyStruct usdc weth 3000 60 noHook) \<and>
   fst (getPoolKeys usdc weth 3000 60 noHook (snd (getPoolKeys usdc weth 3000 60 noHook emptyCache)))
     = (1, keyStruct usdc weth 3000 60 noHook) \<and>
   \<not> same_object
       (fst (getPoolKeys usdc weth 3000 60 noHook emptyCache))
       (fst (getPoolKeys usdc weth 3000 60 noHook (snd (getPoolKeys usdc weth 3000 60 noHook emptyCache)))) \<and>
   poolKeys (snd (getPoolKeys usdc weth 3000 60 noHook (snd (getPoolKeys usdc weth 3000 60 noHook emptyCache))))
     = [(1, keyStruct usdc weth 3000 60 noHook), (0, keyStruct usdc weth 3000 60 noHook)]"
  by (simp add: getPoolKeys_def emptyCache_def same_object_def MAX_ENTRIES_def Let_def)

section \<open>The resolver\<close>

text \<open>The returned memo always produces a pair, and a pool only with \<open>EXISTS\<close>.\<close>

lemma usePool_result_Inr:
  "\<exists>s p. fst (usePool_result ok pt pk st cache) = Inr (s, p)"
  by (auto simp: usePool_result_def try_catch_def Let_def
           split: option.splits prod.splits sum.splits)

lemma usePool_result_pool_iff:
  "fst (usePool_result ok pt pk st cache) = Inr (s, p) \<Longrightarrow> (p \<noteq> None) = (s = EXISTS)"
  by (auto simp: usePool_result_def try_catch_def Let_def
           split: option.splits prod.splits sum.splits if_splits)

text \<open>
  Claim C4. When the pool token tuple is present, both cells are present and valid,
  neither is loading and both hold a result, a decoded price that is absent or equal to
  zero makes the hook return \<open>NOT_EXISTS\<close> with no pool; the cache is not touched.
\<close>

theorem zero_price_is_NOT_EXISTS:
  assumes "pt = Some args"
    and "slot0 st = Some s" and "liquidity st = Some l"
    and "valid s" and "valid l" and "\<not> loading s" and "\<not> loading l"
    and "result s = Some slot0d" and "result l = Some liquidityd"
    and "sqrtPriceX96 slot0d = None \<or> sqrtPriceX96 slot0d = Some 0"
  shows "usePool_result ok pt pk st cache = (Inr (NOT_EXISTS, None), cache)"
  using assms
  by (auto simp: usePool_result_def split: prod.splits)

text \<open>Both reads resolved, with price 0 and liquidity 9.\<close>

theorem zero_price_is_NOT_EXISTS_witness:
  "usePool_result exampleOk (Some (usdc, weth, 3000, 60, noHook))
     (poolKey (Some (usdc, weth, 3000, 60, noHook))) (resolved 0 0 9) emptyCache
   = (Inr (NOT_EXISTS, None), emptyCache)"
  using zero_price_is_NOT_EXISTS
    [of "Some (usdc, weth, 3000, 60, noHook)" "(usdc, weth, 3000, 60, noHook)" "resolved 0 0 9"
        "\<lparr>result = Some \<lparr>sqrtPriceX96 = Some 0, tick = 0\<rparr>, loading = False, valid = True\<rparr>"
        "\<lparr>result = Some 9, loading = False, valid = True\<rparr>"
        "\<lparr>sqrtPriceX96 = Some 0, tick = 0\<rparr>" 9 exampleOk
        "poolKey (Some (usdc, weth, 3000, 60, noHook))" emptyCache]
  by (simp add: resolved_def)

text \<open>What the \<^verbatim>\<open>catch\<close> callback leaves, and what the hook makes of it.\<close>

lemma settle_failure:
  assumes "s0 = Rejected \<or> lts = Rejected \<or>
           (\<exists>r e. s0 = Fulfilled r \<and> decodeSlot0 r = Inl e) \<or>
           (\<exists>r e. lts = Fulfilled r \<and> decodeLiquidity r = Inl e)"
  shows "settle decodeSlot0 decodeLiquidity s0 lts st =
           \<lparr>slot0 = Some \<lparr>result = None, loading = False, valid = False\<rparr>,
            liquidity = Some \<lparr>result = None, loading = False, valid = False\<rparr>\<rparr>"
  using assms
  by (auto simp: settle_def promise_all_def onFulfilled_def onRejected_def
           split: settled.splits sum.splits)

lemma usePool_result_invalid_cells:
  "usePool_result ok pt pk
     \<lparr>slot0 = Some \<lparr>result = None, loading = False, valid = False\<rparr>,
      liquidity = Some \<lparr>result = None, loading = False, valid = False\<rparr>\<rparr> cache
   = (Inr (INVALID, None), cache)"
  by (auto simp: usePool_result_def split: option.splits prod.splits)


text \<open>
  Claim C5. When either read is rejected, or either decoder throws, the settlement sets
  both cells to \<open>loading = False\<close>, \<open>valid = False\<close> and no result, whatever they held
  and whatever the other read returned, and the hook then returns \<open>INVALID\<close> with no
  pool.
\<close>

theorem failed_read_invalidates_both_cells:
  assumes "s0 = Rejected \<or> lts = Rejected \<or>
           (\<exists>r e. s0 = Fulfilled r \<and> decodeSlot0 r = Inl e) \<or>
           (\<exists>r e. lts = Fulfilled r \<and> decodeLiquidity r = Inl e)"
  shows "settle decodeSlot0 decodeLiquidity s0 lts st =
           \<lparr>slot0 = Some \<lparr>result = None, loading = False, valid = False\<rparr>,
            liquidity = Some \<lparr>result = None, loading = False, valid = False\<rparr>\<rparr> \<and>
         usePool_result ok pt pk (settle decodeSlot0 decodeLiquidity s0 lts st) cache =
           (Inr (INVALID, None), cache)"
  using settle_failure[OF assms] by (simp add: usePool_result_invalid_cells)

text \<open>The slot read succeeds and the liquidity read is rejected.\<close>

theorem failed_read_invalidates_both_cells_witness:
  "settle exampleDecodeSlot0 exampleDecodeLiquidity (Fulfilled ''0x05'') Rejected (resolved 5 7 9) =
     \<lparr>slot0 = Some \<lparr>result = None, loading = False, valid = False\<rparr>,
      liquidity = Some \<lparr>result = None, loading = False, valid = False\<rparr>\<rparr> \<and>
   usePool_result exampleOk (Some (usdc, weth, 3000, 60, noHook))
       (Some (keyStruct usdc weth 3000 60 noHook))
       (settle exampleDecodeSlot0 exampleDecodeLiquidity (Fulfilled ''0x05'') Rejected (resolved 5 7 9))
       emptyCache =
     (Inr (INVALID, None), emptyCache)"
  by (rule failed_read_invalidates_both_cells) simp

section \<open>The key normalizer\<close>

text \<open>The order of the lower-cased strings is the order of the numbers.\<close>

lemma digitValue_less_16: "isHexDigit c \<Longrightarrow> digitValue c < 16"
  by (auto simp: isHexDigit_def digitValue_def less_eq_char_def)

lemma digitValue_mono:
  "isHexDigit c \<Longrightarrow> isHexDigit d \<Longrightarrow> (c < d) = (digitValue c < digitValue d)"
  by (auto simp: isHexDigit_def digitValue_def less_eq_char_def less_char_def)

lemma digitValue_inj:
  "isHexDigit c \<Longrightarrow> isHexDigit d \<Longrightarrow> digitValue c = digitValue d \<Longrightarrow> c = d"
  using digitValue_mono[of c d] digitValue_mono[of d c] by (metis less_irrefl linorder_neqE)

lemma digit_block_bound:
  fixes K :: nat
  assumes "d < 16" and "v < K"
  shows "d * K + v < 16 * K"
proof -
  have "d * K + v < d * K + K" using assms(2) by simp
  also have "\<dots> = (d + 1) * K" by simp
  also have "\<dots> \<le> 16 * K" using assms(1) by (intro mult_le_mono1) simp
  finally show ?thesis .
qed

lemma hexValue_bound: "list_all isHexDigit cs \<Longrightarrow> hexValue cs < 16 ^ length cs"
proof (induction cs)
  case Nil
  then show ?case by simp
next
  case (Cons c cs)
  then have d: "digitValue c < 16" and v: "hexValue cs < 16 ^ length cs"
    by (simp_all add: digitValue_less_16)
  then show ?case using digit_block_bound[OF d v] by simp
qed

lemma block_order:
  fixes K :: nat
  assumes "u < K" and "v < K"
  shows "(x * K + u < y * K + v) = (x < y \<or> x = y \<and> u < v)"
proof (cases "x < y")
  case True
  then have "(x + 1) * K \<le> y * K" by (intro mult_le_mono1) simp
  with assms True show ?thesis by (simp add: algebra_simps)
next
  case False
  show ?thesis
  proof (cases "x = y")
    case True
    then show ?thesis by simp
  next
    case ne: False
    with False have "y < x" by simp
    then have "(y + 1) * K \<le> x * K" by (intro mult_le_mono1) simp
    with assms False ne show ?thesis by (simp add: algebra_simps)
  qed
qed

lemma hexValue_order:
  "length xs = length ys \<Longrightarrow> list_all isHexDigit xs \<Longrightarrow> list_all isHexDigit ys \<Longrightarrow>
     (xs < ys) = (hexValue xs < hexValue ys)"
proof (induction xs ys rule: list_induct2)
  case Nil
  then show ?case by simp
next
  case (Cons x xs y ys)
  then have hx: "isHexDigit x" and hy: "isHexDigit y"
    and bx: "hexValue xs < 16 ^ length ys" and "hexValue ys < 16 ^ length ys"
    and ih: "(xs < ys) = (hexValue xs < hexValue ys)"
    using hexValue_bound[of xs] hexValue_bound[of ys] by simp_all
  then show ?case
    using digitValue_mono[OF hx hy] digitValue_inj[OF hx hy] Cons.hyps
    by (auto simp: block_order)
qed

lemma toLowerCase_address:
  assumes "isAddress s"
  shows "toLowerCase s = ''0x'' @ drop 2 (toLowerCase s)"
    and "length (drop 2 (toLowerCase s)) = 40"
proof -
  have "toLowerCase s = toLowerCase (take 2 s @ drop 2 s)" by simp
  also have "\<dots> = toLowerCase ''0x'' @ drop 2 (toLowerCase s)"
    using assms by (simp add: toLowerCase_def isAddress_def drop_map del: append_take_drop_id)
  also have "toLowerCase ''0x'' = ''0x''"
    by (simp add: toLowerCase_def lowerChar_def)
  finally show "toLowerCase s = ''0x'' @ drop 2 (toLowerCase s)" .
  show "length (drop 2 (toLowerCase s)) = 40"
    using assms by (simp add: toLowerCase_def isAddress_def)
qed

lemma address_order_numeric:
  assumes "isAddress s" and "isAddress t"
  shows "(toLowerCase s < toLowerCase t) = (addressValue s < addressValue t)"
proof -
  have "(toLowerCase s < toLowerCase t) =
          (''0x'' @ drop 2 (toLowerCase s) < ''0x'' @ drop 2 (toLowerCase t))"
    using toLowerCase_address(1)[OF assms(1)] toLowerCase_address(1)[OF assms(2)] by simp
  also have "\<dots> = (drop 2 (toLowerCase s) < drop 2 (toLowerCase t))"
    by simp
  also have "\<dots> = (addressValue s < addressValue t)"
    unfolding addressValue_def
    using assms toLowerCase_address(2)[OF assms(1)] toLowerCase_address(2)[OF assms(2)]
    by (intro hexValue_order) (simp_all add: isAddress_def)
  finally show ?thesis .
qed

lemma poolToken_distinct:
  assumes "truthy_num chainId" and "f \<noteq> 0" and "ts \<noteq> 0" and "h \<noteq> []"
    and "\<not> equals (wrapped a) (wrapped b)"
  shows "poolToken chainId (Some a) (Some b) (Some f) (Some ts) (Some h) =
           Some (if sortsBefore (wrapped a) (wrapped b)
                 then (wrapped a, wrapped b, f, ts, h) else (wrapped b, wrapped a, f, ts, h))"
  using assms by (simp add: poolToken_def Let_def)

lemma sortsBefore_flip:
  "\<not> equals ta tb \<Longrightarrow> sortsBefore tb ta = (\<not> sortsBefore ta tb)"
  by (auto simp: equals_def sortsBefore_def)

text \<open>
  Claim C6. With a chain, two currencies whose wrapped tokens are different assets, and
  a fee, a tick spacing and a hook that are present (and truthy), the two orders of the
  currencies give the same token tuple and the same key. Its \<open>currency0\<close> is the address
  of the token that sorts before the other, which is the lower address: the smaller as
  lower-cased strings and, for well-formed addresses, the smaller number; fee, tick
  spacing and hook are as supplied. In both orders \<^verbatim>\<open>toId\<close> is the hash of the encoding
  of these five fields in this order (or the encoder's exception).
\<close>

theorem normalization_commutes:
  fixes a b :: Currency
  defines "lo \<equiv> (if sortsBefore (wrapped a) (wrapped b) then wrapped a else wrapped b)"
    and "hi \<equiv> (if sortsBefore (wrapped a) (wrapped b) then wrapped b else wrapped a)"
  assumes "truthy_num chainId" and "f \<noteq> 0" and "ts \<noteq> 0" and "h \<noteq> []"
    and "\<not> equals (wrapped a) (wrapped b)"
  shows "poolToken chainId (Some a) (Some b) (Some f) (Some ts) (Some h) = Some (lo, hi, f, ts, h) \<and>
         poolToken chainId (Some b) (Some a) (Some f) (Some ts) (Some h) = Some (lo, hi, f, ts, h) \<and>
         poolKey (poolToken chainId (Some a) (Some b) (Some f) (Some ts) (Some h)) =
           Some \<lparr>currency0 = address lo, currency1 = address hi,
                 fee = f, tickSpacing = ts, hooks = h\<rparr> \<and>
         poolKey (poolToken chainId (Some b) (Some a) (Some f) (Some ts) (Some h)) =
           Some \<lparr>currency0 = address lo, currency1 = address hi,
                 fee = f, tickSpacing = ts, hooks = h\<rparr> \<and>
         toLowerCase (address lo) < toLowerCase (address hi) \<and>
         (isAddress (address lo) \<and> isAddress (address hi)
            \<longrightarrow> addressValue (address lo) < addressValue (address hi)) \<and>
         toId encode keccak256 (poolKey (poolToken chainId (Some a) (Some b) (Some f) (Some ts) (Some h))) =
           (case encode (address lo, address hi, f, ts, h) of
              Inl e \<Rightarrow> Inl e | Inr params \<Rightarrow> Inr (Some (keccak256 params))) \<and>
         toId encode keccak256 (poolKey (poolToken chainId (Some b) (Some a) (Some f) (Some ts) (Some h))) =
           (case encode (address lo, address hi, f, ts, h) of
              Inl e \<Rightarrow> Inl e | Inr params \<Rightarrow> Inr (Some (keccak256 params)))"
proof -
  from assms(7) have ba: "\<not> equals (wrapped b) (wrapped a)"
    by (auto simp: equals_def)
  have ab: "poolToken chainId (Some a) (Some b) (Some f) (Some ts) (Some h) = Some (lo, hi, f, ts, h)"
    by (simp add: poolToken_distinct[OF assms(3-7)] lo_def hi_def)
  have ba': "poolToken chainId (Some b) (Some a) (Some f) (Some ts) (Some h) = Some (lo, hi, f, ts, h)"
    by (simp add: poolToken_distinct[OF assms(3-6) ba] sortsBefore_flip[OF assms(7)] lo_def hi_def)
  have lt: "toLowerCase (address lo) < toLowerCase (address hi)"
    using assms(7) by (auto simp: lo_def hi_def sortsBefore_def equals_def)
  have num: "isAddress (address lo) \<and> isAddress (address hi)
               \<longrightarrow> addressValue (address lo) < addressValue (address hi)"
    using lt address_order_numeric[of "address lo" "address hi"] by blast
  show ?thesis
    using lt num by (simp add: ab ba' poolKey_def toId_def)
qed

text \<open>
  The pair of \<open>usdt\<close> and \<open>zrx\<close>, in both orders: \<open>usdt\<close> is \<open>currency0\<close>, although
  its address as written, with a lower-case \<^verbatim>\<open>d\<close> against an upper-case \<^verbatim>\<open>E\<close>, is the
  larger string.
\<close>

theorem normalization_commutes_witness:
  "\<not> equals (wrapped \<lparr>wrapped = zrx\<rparr>) (wrapped \<lparr>wrapped = usdt\<rparr>) \<and>
   address zrx < address usdt \<and>
   isAddress (address usdt) \<and> isAddress (address zrx) \<and>
   addressValue (address usdt) < addressValue (address zrx) \<and>
   poolToken (Some 1) (Some \<lparr>wrapped = zrx\<rparr>) (Some \<lparr>wrapped = usdt\<rparr>) (Some 3000) (Some 60) (Some noHook) =
     Some (usdt, zrx, 3000, 60, noHook) \<and>
   poolToken (Some 1) (Some \<lparr>wrapped = usdt\<rparr>) (Some \<lparr>wrapped = zrx\<rparr>) (Some 3000) (Some 60) (Some noHook) =
     Some (usdt, zrx, 3000, 60, noHook) \<and>
   poolKey (poolToken (Some 1) (Some \<lparr>wrapped = zrx\<rparr>) (Some \<lparr>wrapped = usdt\<rparr>) (Some 3000) (Some 60) (Some noHook)) =
     Some \<lparr>currency0 = address usdt, currency1 = address zrx, fee = 3000, tickSpacing = 60,
           hooks = noHook\<rparr> \<and>
   poolKey (poolToken (Some 1) (Some \<lparr>wrapped = usdt\<rparr>) (Some \<lparr>wrapped = zrx\<rparr>) (Some 3000) (Some 60) (Some noHook)) =
     Some \<lparr>currency0 = address usdt, currency1 = address zrx, fee = 3000, tickSpacing = 60,
           hooks = noHook\<rparr> \<and>
   toId uint24Encode exampleKeccak (poolKey (poolToken (Some 1) (Some \<lparr>wrapped = zrx\<rparr>) (Some \<lparr>wrapped = usdt\<rparr>) (Some 3000) (Some 60) (Some noHook))) =
     Inr (Some (exampleKeccak (address usdt @ address zrx @ noHook))) \<and>
   toId uint24Encode exampleKeccak (poolKey (poolToken (Some 1) (Some \<lparr>wrapped = usdt\<rparr>) (Some \<lparr>wrapped = zrx\<rparr>) (Some 3000) (Some 60) (Some noHook))) =
     Inr (Some (exampleKeccak (address usdt @ address zrx @ noHook)))"
proof -
  have ne: "\<not> equals (wrapped \<lparr>wrapped = zrx\<rparr>) (wrapped \<lparr>wrapped = usdt\<rparr>)"
    by (simp add: equals_def zrx_def usdt_def toLowerCase_def lowerChar_def)
  have sb: "\<not> sortsBefore zrx usdt"
    by (simp add: sortsBefore_def zrx_def usdt_def toLowerCase_def lowerChar_def less_char_def)
  have lo: "(if sortsBefore (wrapped \<lparr>wrapped = zrx\<rparr>) (wrapped \<lparr>wrapped = usdt\<rparr>)
             then wrapped \<lparr>wrapped = zrx\<rparr> else wrapped \<lparr>wrapped = usdt\<rparr>) = usdt"
    and hi: "(if sortsBefore (wrapped \<lparr>wrapped = zrx\<rparr>) (wrapped \<lparr>wrapped = usdt\<rparr>)
             then wrapped \<lparr>wrapped = usdt\<rparr> else wrapped \<lparr>wrapped = zrx\<rparr>) = zrx"
    using sb by simp_all
  have raw: "address zrx < address usdt"
    by (simp add: zrx_def usdt_def less_char_def)
  have wf: "isAddress (address usdt)" "isAddress (address zrx)"
    by (simp_all add: isAddress_def isHexDigit_def zrx_def usdt_def toLowerCase_def lowerChar_def
          less_eq_char_def)
  have enc: "uint24Encode (address usdt, address zrx, 3000, 60, noHook) =
               Inr (address usdt @ address zrx @ noHook)"
    by (simp add: uint24Encode_def)
  have chain: "truthy_num (Some 1)" and fee: "(3000 :: int) \<noteq> 0" and spacing: "(60 :: int) \<noteq> 0"
    and hook: "noHook \<noteq> []"
    by (simp_all add: truthy_num_def noHook_def)
  note inst = normalization_commutes
      [of "Some 1" 3000 60 noHook "\<lparr>wrapped = zrx\<rparr>" "\<lparr>wrapped = usdt\<rparr>" uint24Encode exampleKeccak,
       OF chain fee spacing hook ne, unfolded lo hi enc sum.case]
  show ?thesis
    using ne raw wf inst by blast
qed

text \<open>
  Claim C7. When one of the two currencies, the fee, the tick spacing or the hook is
  missing, or the two currencies wrap to equal tokens, the memo \<^verbatim>\<open>poolToken\<close> is
  \<^verbatim>\<open>undefined\<close>, so is the key, and the hook returns \<open>INVALID\<close> with no pool, as a
  value and not as an exception, whatever the cells hold.
\<close>

theorem same_asset_or_missing_input_is_INVALID:
  assumes "currencyA = None \<or> currencyB = None \<or> feeAmount = None \<or> spacing = None \<or>
           hookAddr = None \<or>
           (\<exists>a b. currencyA = Some a \<and> currencyB = Some b \<and> equals (wrapped a) (wrapped b))"
  shows "poolToken chainId currencyA currencyB feeAmount spacing hookAddr = None \<and>
         poolKey (poolToken chainId currencyA currencyB feeAmount spacing hookAddr) = None \<and>
         usePool ok encode keccak256 chainId currencyA currencyB feeAmount spacing hookAddr st cache =
           (Inr (INVALID, None), cache)"
proof -
  have "poolToken chainId currencyA currencyB feeAmount spacing hookAddr = None"
    using assms by (auto simp: poolToken_def Let_def split: option.splits)
  then show ?thesis
    by (simp add: poolKey_def usePool_def toId_def usePool_result_def)
qed

text \<open>The same token on both sides.\<close>

theorem same_asset_or_missing_input_is_INVALID_witness:
  "equals (wrapped \<lparr>wrapped = weth\<rparr>) (wrapped \<lparr>wrapped = weth\<rparr>) \<and>
   poolToken (Some 1) (Some \<lparr>wrapped = weth\<rparr>) (Some \<lparr>wrapped = weth\<rparr>) (Some 3000) (Some 60) (Some noHook) = None \<and>
   usePool exampleOk uint24Encode exampleKeccak (Some 1) (Some \<lparr>wrapped = weth\<rparr>)
     (Some \<lparr>wrapped = weth\<rparr>) (Some 3000) (Some 60) (Some noHook) (resolved 5 7 9) emptyCache =
     (Inr (INVALID, None), emptyCache)"
proof -
  have eq: "equals (wrapped \<lparr>wrapped = weth\<rparr>) (wrapped \<lparr>wrapped = weth\<rparr>)"
    by (simp add: equals_def)
  show ?thesis
    using eq same_asset_or_missing_input_is_INVALID
      [of "Some \<lparr>wrapped = weth\<rparr>" "Some \<lparr>wrapped = weth\<rparr>" "Some 3000" "Some 60" "Some noHook"
          "Some 1" exampleOk uint24Encode exampleKeccak "resolved 5 7 9" emptyCache]
    by simp
qed


section \<open>Exceptions\<close>

lemma usePool_result_construction_failure:
  assumes "pt = Some (t0, t1, fe, sp, hk)"
    and "slot0 st = Some s" and "liquidity st = Some l"
    and "valid s" and "valid l" and "\<not> loading s" and "\<not> loading l"
    and "result s = Some slot0d" and "result l = Some liquidityd"
    and "sqrtPriceX96 slot0d = Some price" and "price \<noteq> 0"
    and "fst (getPool ok t0 t1 fe price liquidityd
                (case pk of None \<Rightarrow> 60 | Some k \<Rightarrow> tickSpacing k) (tick slot0d) cache) = Inl e"
  shows "fst (usePool_result ok pt pk st cache) = Inr (NOT_EXISTS, None)"
  using assms
  by (auto simp: usePool_result_def try_catch_def split: prod.splits sum.splits)

lemma usePool_Inr:
  "toId encode keccak256 (poolKey (poolToken chainId currencyA currencyB feeAmount spacing hookAddr)) = Inr ident
   \<Longrightarrow> \<exists>s p. fst (usePool ok encode keccak256 chainId currencyA currencyB feeAmount spacing hookAddr st cache) = Inr (s, p)"
  by (simp add: usePool_def Let_def usePool_result_Inr)

lemma usePool_Inl:
  "toId encode keccak256 (poolKey (poolToken chainId currencyA currencyB feeAmount spacing hookAddr)) = Inl e
   \<Longrightarrow> usePool ok encode keccak256 chainId currencyA currencyB feeAmount spacing hookAddr st cache = (Inl e, cache)"
  by (simp add: usePool_def Let_def)

text \<open>
  Claim C8, as the code has it. When \<^verbatim>\<open>toId\<close> returns, the hook returns a pair of a state
  and an optional pool, before and after any settlement of the reads; when the encoder
  called by \<^verbatim>\<open>toId\<close> throws, that exception leaves the hook. The returned memo itself
  never throws: an exception of the pool construction is caught and turned into
  \<open>NOT_EXISTS\<close> with no pool.
\<close>

theorem usePool_contains_read_and_construction_failures:
  "(toId encode keccak256 (poolKey (poolToken chainId currencyA currencyB feeAmount spacing hookAddr)) = Inr ident
      \<longrightarrow> (\<exists>s p. fst (usePool ok encode keccak256 chainId currencyA currencyB feeAmount spacing hookAddr
                        st cache) = Inr (s, p)) \<and>
          (\<exists>s p. fst (usePool ok encode keccak256 chainId currencyA currencyB feeAmount spacing hookAddr
                        (settle decodeSlot0 decodeLiquidity s0 lts st) cache) = Inr (s, p))) \<and>
   (toId encode keccak256 (poolKey (poolToken chainId currencyA currencyB feeAmount spacing hookAddr)) = Inl e'
      \<longrightarrow> usePool ok encode keccak256 chainId currencyA currencyB feeAmount spacing hookAddr st cache
            = (Inl e', cache)) \<and>
   (\<exists>s p. fst (usePool_result ok pt pk st cache) = Inr (s, p)) \<and>
   (pt = Some (t0, t1, fe, sp, hk) \<and> slot0 st = Some s \<and> liquidity st = Some l \<and>
    valid s \<and> valid l \<and> \<not> loading s \<and> \<not> loading l \<and>
    result s = Some slot0d \<and> result l = Some liquidityd \<and>
    sqrtPriceX96 slot0d = Some price \<and> price \<noteq> 0 \<and>
    fst (getPool ok t0 t1 fe price liquidityd
           (case pk of None \<Rightarrow> 60 | Some k \<Rightarrow> tickSpacing k) (tick slot0d) cache) = Inl e
    \<longrightarrow> fst (usePool_result ok pt pk st cache) = Inr (NOT_EXISTS, None))"
proof (intro conjI impI)
  assume "toId encode keccak256 (poolKey (poolToken chainId currencyA currencyB feeAmount spacing hookAddr)) = Inr ident"
  then show "\<exists>s p. fst (usePool ok encode keccak256 chainId currencyA currencyB feeAmount spacing hookAddr
                        st cache) = Inr (s, p)"
    and "\<exists>s p. fst (usePool ok encode keccak256 chainId currencyA currencyB feeAmount spacing hookAddr
                        (settle decodeSlot0 decodeLiquidity s0 lts st) cache) = Inr (s, p)"
    by (rule usePool_Inr)+
next
  assume "toId encode keccak256 (poolKey (poolToken chainId currencyA currencyB feeAmount spacing hookAddr)) = Inl e'"
  then show "usePool ok encode keccak256 chainId currencyA currencyB feeAmount spacing hookAddr st cache
            = (Inl e', cache)"
    by (rule usePool_Inl)
next
  show "\<exists>s p. fst (usePool_result ok pt pk st cache) = Inr (s, p)"
    by (rule usePool_result_Inr)
next
  assume "pt = Some (t0, t1, fe, sp, hk) \<and> slot0 st = Some s \<and> liquidity st = Some l \<and>
    valid s \<and> valid l \<and> \<not> loading s \<and> \<not> loading l \<and>
    result s = Some slot0d \<and> result l = Some liquidityd \<and>
    sqrtPriceX96 slot0d = Some price \<and> price \<noteq> 0 \<and>
    fst (getPool ok t0 t1 fe price liquidityd
           (case pk of None \<Rightarrow> 60 | Some k \<Rightarrow> tickSpacing k) (tick slot0d) cache) = Inl e"
  then show "fst (usePool_result ok pt pk st cache) = Inr (NOT_EXISTS, None)"
    by (intro usePool_result_construction_failure) blast+
qed

lemma poolToken_usdc_weth:
  "poolToken (Some 1) (Some \<lparr>wrapped = usdc\<rparr>) (Some \<lparr>wrapped = weth\<rparr>) (Some f) (Some 60) (Some noHook) =
     (if f = 0 then None else Some (usdc, weth, f, 60, noHook))"
  by (simp add: poolToken_def truthy_num_def equals_def sortsBefore_def usdc_def weth_def noHook_def
        toLowerCase_def lowerChar_def less_char_def)

text \<open>A fee in range, and a liquidity that the constructor rejects.\<close>

theorem usePool_contains_read_and_construction_failures_witness:
  "toId uint24Encode exampleKeccak
     (poolKey (poolToken (Some 1) (Some \<lparr>wrapped = usdc\<rparr>) (Some \<lparr>wrapped = weth\<rparr>) (Some 3000) (Some 60)
        (Some noHook))) = Inr (Some (exampleKeccak (address usdc @ address weth @ noHook))) \<and>
   fst (getPool exampleOk usdc weth 3000 5 (- 1) 60 7 emptyCache) = Inl InvalidPool \<and>
   fst (usePool_result exampleOk (Some (usdc, weth, 3000, 60, noHook))
          (Some (keyStruct usdc weth 3000 60 noHook)) (resolved 5 7 (- 1)) emptyCache) =
     Inr (NOT_EXISTS, None) \<and>
   (\<exists>s p. fst (usePool exampleOk uint24Encode exampleKeccak (Some 1) (Some \<lparr>wrapped = usdc\<rparr>)
                 (Some \<lparr>wrapped = weth\<rparr>) (Some 3000) (Some 60) (Some noHook) (resolved 5 7 (- 1))
                 emptyCache) = Inr (s, p))"
proof -
  have ident: "toId uint24Encode exampleKeccak
     (poolKey (poolToken (Some 1) (Some \<lparr>wrapped = usdc\<rparr>) (Some \<lparr>wrapped = weth\<rparr>) (Some 3000) (Some 60)
        (Some noHook))) = Inr (Some (exampleKeccak (address usdc @ address weth @ noHook)))"
    unfolding poolToken_usdc_weth
    by (simp add: poolKey_def toId_def uint24Encode_def exampleKeccak_def
          usdc_def weth_def noHook_def)
  have thrown: "fst (getPool exampleOk usdc weth 3000 5 (- 1) 60 7 emptyCache) = Inl InvalidPool"
    by (simp add: getPool_def new_Pool_def exampleOk_def emptyCache_def MAX_ENTRIES_def Let_def)
  note inst = usePool_contains_read_and_construction_failures
      [of uint24Encode exampleKeccak "Some 1" "Some \<lparr>wrapped = usdc\<rparr>" "Some \<lparr>wrapped = weth\<rparr>"
          "Some 3000" "Some 60" "Some noHook" "Some (exampleKeccak (address usdc @ address weth @ noHook))" exampleOk
          "resolved 5 7 (- 1)" emptyCache
          exampleDecodeSlot0 exampleDecodeLiquidity Rejected Rejected InvalidPool
          "Some (usdc, weth, 3000, 60, noHook)" "Some (keyStruct usdc weth 3000 60 noHook)"
          usdc weth 3000 60 noHook
          "\<lparr>result = Some \<lparr>sqrtPriceX96 = Some 5, tick = 7\<rparr>, loading = False, valid = True\<rparr>"
          "\<lparr>result = Some (- 1), loading = False, valid = True\<rparr>"
          "\<lparr>sqrtPriceX96 = Some 5, tick = 7\<rparr>" "- 1" 5 InvalidPool]
  have caught: "fst (usePool_result exampleOk (Some (usdc, weth, 3000, 60, noHook))
          (Some (keyStruct usdc weth 3000 60 noHook)) (resolved 5 7 (- 1)) emptyCache) =
     Inr (NOT_EXISTS, None)"
    using inst thrown by (simp add: resolved_def keyStruct_def)
  have returns: "\<exists>s p. fst (usePool exampleOk uint24Encode exampleKeccak (Some 1) (Some \<lparr>wrapped = usdc\<rparr>)
                 (Some \<lparr>wrapped = weth\<rparr>) (Some 3000) (Some 60) (Some noHook) (resolved 5 7 (- 1))
                 emptyCache) = Inr (s, p)"
    using inst ident by blast
  show ?thesis using ident thrown caught returns by blast
qed

text \<open>
  Claim C8 as stated fails: with the fee \<open>2 ^ 24\<close>, which does not fit \<^verbatim>\<open>uint24\<close>, the
  encoder throws in \<^verbatim>\<open>toId\<close> and the hook throws instead of returning a state.
\<close>

theorem usePool_out_of_range_fee_counterexample:
  "fst (usePool exampleOk uint24Encode exampleKeccak (Some 1) (Some \<lparr>wrapped = usdc\<rparr>)
          (Some \<lparr>wrapped = weth\<rparr>) (Some 16777216) (Some 60) (Some noHook) (resolved 5 7 9) emptyCache) =
     Inl EncodeFailed"
  by (simp add: usePool_def poolToken_usdc_weth poolKey_def toId_def uint24Encode_def Let_def)

section \<open>The returned pair\<close>

text \<open>
  Claim C10. Whenever the hook returns, the pool is present exactly when the state is
  \<open>EXISTS\<close>; with \<open>LOADING\<close>, \<open>NOT_EXISTS\<close> and \<open>INVALID\<close> there is no pool.
\<close>

theorem pool_is_returned_exactly_with_EXISTS:
  "(fst (usePool_result ok pt pk st cache) = Inr (s, p) \<longrightarrow> (p \<noteq> None) = (s = EXISTS)) \<and>
   (fst (usePool ok encode keccak256 chainId currencyA currencyB feeAmount spacing hookAddr st cache) =
      Inr (s, p) \<longrightarrow> (p \<noteq> None) = (s = EXISTS))"
  using usePool_result_pool_iff by (auto simp: usePool_def Let_def split: sum.splits)

text \<open>Both reads resolved with price 5, tick 7 and liquidity 9.\<close>

theorem pool_is_returned_exactly_with_EXISTS_witness:
  "fst (usePool_result exampleOk (Some (usdc, weth, 3000, 60, noHook))
          (Some (keyStruct usdc weth 3000 60 noHook)) (resolved 5 7 9) emptyCache) =
     Inr (EXISTS, Some \<lparr>token0 = usdc, token1 = weth, pool_fee = 3000, sqrtRatioX96 = 5,
                         pool_liquidity = 9, pool_tickSpacing = 60, tickCurrent = 7\<rparr>) \<and>
   (Some \<lparr>token0 = usdc, token1 = weth, pool_fee = 3000, sqrtRatioX96 = 5,
           pool_liquidity = 9, pool_tickSpacing = 60, tickCurrent = 7\<rparr> \<noteq> None) = (EXISTS = EXISTS)"
proof -
  have r: "fst (usePool_result exampleOk (Some (usdc, weth, 3000, 60, noHook))
          (Some (keyStruct usdc weth 3000 60 noHook)) (resolved 5 7 9) emptyCache) =
     Inr (EXISTS, Some \<lparr>token0 = usdc, token1 = weth, pool_fee = 3000, sqrtRatioX96 = 5,
                         pool_liquidity = 9, pool_tickSpacing = 60, tickCurrent = 7\<rparr>)"
    by (simp add: usePool_result_def resolved_def getPool_def new_Pool_def exampleOk_def
          emptyCache_def MAX_ENTRIES_def keyStruct_def try_catch_def Let_def)
  show ?thesis
    using r pool_is_returned_exactly_with_EXISTS
      [of exampleOk "Some (usdc, weth, 3000, 60, noHook)" "Some (keyStruct usdc weth 3000 60 noHook)"
          "resolved 5 7 9" emptyCache EXISTS
          "Some \<lparr>token0 = usdc, token1 = weth, pool_fee = 3000, sqrtRatioX96 = 5,
                  pool_liquidity = 9, pool_tickSpacing = 60, tickCurrent = 7\<rparr>"
          uint24Encode exampleKeccak "Some 1" None None None None None]
    by blast
qed

section \<open>Overlapping requests\<close>

text \<open>
  Claim C2, as the code has it. The settlement of any request in flight, the latest or an
  earlier one, runs its callbacks: both cells are overwritten with the outcome of that
  request, the decoded results with \<open>loading = False\<close> and \<open>valid = True\<close> when both
  reads were fulfilled and decoded, and no result with \<open>valid = False\<close> otherwise. No
  request number or generation is compared.
\<close>

theorem settlement_of_any_request_overwrites_both_cells:
  assumes "n \<in> set (inflight rt)"
  shows "step decodeSlot0 decodeLiquidity (Settled n s0 lts) rt =
           Some (rt\<lparr>cells := settle decodeSlot0 decodeLiquidity s0 lts (cells rt),
                    inflight := removeAll n (inflight rt)\<rparr>) \<and>
         settle decodeSlot0 decodeLiquidity s0 lts (cells rt) =
           (case promise_all s0 lts of
              Inl e \<Rightarrow> \<lparr>slot0 = Some \<lparr>result = None, loading = False, valid = False\<rparr>,
                        liquidity = Some \<lparr>result = None, loading = False, valid = False\<rparr>\<rparr>
            | Inr rs \<Rightarrow>
                (case decodeSlot0 (fst rs) of
                   Inl e \<Rightarrow> \<lparr>slot0 = Some \<lparr>result = None, loading = False, valid = False\<rparr>,
                             liquidity = Some \<lparr>result = None, loading = False, valid = False\<rparr>\<rparr>
                 | Inr d0 \<Rightarrow>
                     (case decodeLiquidity (snd rs) of
                        Inl e \<Rightarrow> \<lparr>slot0 = Some \<lparr>result = None, loading = False, valid = False\<rparr>,
                                  liquidity = Some \<lparr>result = None, loading = False, valid = False\<rparr>\<rparr>
                      | Inr dl \<Rightarrow> \<lparr>slot0 = Some \<lparr>result = Some d0, loading = False, valid = True\<rparr>,
                                   liquidity = Some \<lparr>result = Some dl, loading = False, valid = True\<rparr>\<rparr>)))"
  using assms
  by (simp add: settle_def onFulfilled_def onRejected_def split: sum.splits)

text \<open>Request 0 settles while request 1 is in flight.\<close>

theorem settlement_of_any_request_overwrites_both_cells_witness:
  "0 \<in> set (inflight \<lparr>cells = \<lparr>slot0 = Some \<lparr>result = None, loading = True, valid = True\<rparr>,
                                 liquidity = Some \<lparr>result = None, loading = True, valid = True\<rparr>\<rparr>,
                        inflight = [0, 1], issued = 2\<rparr>) \<and>
   step exampleDecodeSlot0 exampleDecodeLiquidity (Settled 0 (Fulfilled ''0x05'') (Fulfilled ''0x09''))
     \<lparr>cells = \<lparr>slot0 = Some \<lparr>result = None, loading = True, valid = True\<rparr>,
                liquidity = Some \<lparr>result = None, loading = True, valid = True\<rparr>\<rparr>,
      inflight = [0, 1], issued = 2\<rparr> =
     Some \<lparr>cells = resolved 5 7 9, inflight = [1], issued = 2\<rparr>"
proof -
  have h: "0 \<in> set (inflight \<lparr>cells = \<lparr>slot0 = Some \<lparr>result = None, loading = True, valid = True\<rparr>,
                                 liquidity = Some \<lparr>result = None, loading = True, valid = True\<rparr>\<rparr>,
                        inflight = [0, 1], issued = 2\<rparr>)"
    by simp
  show ?thesis
    using h settlement_of_any_request_overwrites_both_cells
      [OF h, of exampleDecodeSlot0 exampleDecodeLiquidity "Fulfilled ''0x05''" "Fulfilled ''0x09''"]
    by (simp add: promise_all_def exampleDecodeSlot0_def exampleDecodeLiquidity_def resolved_def)
qed

text \<open>
  Claim C2 as stated fails. The key changes from the pair of \<open>usdc\<close> and \<open>weth\<close> to the
  pair of \<open>dai\<close> and \<open>usdc\<close> while the first request is in flight. After the second run
  of the effect both cells are loading; when the first request then settles, its results
  replace them although the second request is still in flight, and the hook reports that
  the pool of \<open>dai\<close> and \<open>usdc\<close> exists, with the price and liquidity read for the
  other pool.
\<close>

theorem stale_settlement_overwrites_counterexample:
  "run exampleDecodeSlot0 exampleDecodeLiquidity
     [DepsChanged True (Some ''0x1d'') True (Some 1) (Some (keyStruct usdc weth 3000 60 noHook)),
      DepsChanged True (Some ''0x2d'') True (Some 1) (Some (keyStruct dai usdc 3000 60 noHook))]
     initial =
     Some \<lparr>cells = \<lparr>slot0 = Some \<lparr>result = None, loading = True, valid = True\<rparr>,
                     liquidity = Some \<lparr>result = None, loading = True, valid = True\<rparr>\<rparr>,
           inflight = [0, 1], issued = 2\<rparr> \<and>
   run exampleDecodeSlot0 exampleDecodeLiquidity
     [DepsChanged True (Some ''0x1d'') True (Some 1) (Some (keyStruct usdc weth 3000 60 noHook)),
      DepsChanged True (Some ''0x2d'') True (Some 1) (Some (keyStruct dai usdc 3000 60 noHook)),
      Settled 0 (Fulfilled ''0x05'') (Fulfilled ''0x09'')]
     initial =
     Some \<lparr>cells = resolved 5 7 9, inflight = [1], issued = 2\<rparr> \<and>
   fst (usePool_result exampleOk (Some (dai, usdc, 3000, 60, noHook))
          (Some (keyStruct dai usdc 3000 60 noHook)) (resolved 5 7 9) emptyCache) =
     Inr (EXISTS, Some \<lparr>token0 = dai, token1 = usdc, pool_fee = 3000, sqrtRatioX96 = 5,
                         pool_liquidity = 9, pool_tickSpacing = 60, tickCurrent = 7\<rparr>)"
  by (simp add: initial_def effect_def truthy_str_def truthy_num_def settle_def promise_all_def
        onFulfilled_def exampleDecodeSlot0_def exampleDecodeLiquidity_def resolved_def
        usePool_result_def getPool_def new_Pool_def exampleOk_def emptyCache_def MAX_ENTRIES_def
        keyStruct_def try_catch_def Let_def)

section \<open>The theme provider\<close>

text \<open>A falsy \<^verbatim>\<open>borderRadius\<close> or \<^verbatim>\<open>grids\<close> section is replaced by the default.\<close>

lemma toDefaultTheme_fallback:
  "\<not> truthy (getProp theme ''borderRadius'') \<Longrightarrow>
     toDefaultTheme theme ''borderRadius'' = Some defaultBorderRadius"
  "\<not> truthy (getProp theme ''grids'') \<Longrightarrow> toDefaultTheme theme ''grids'' = Some gapValues"
  by (simp_all add: toDefaultTheme_def)

text \<open>The context is spread last: each of its properties wins over the prop's.\<close>

lemma Provider_context_wins:
  "themeCtx name = Some v \<Longrightarrow> name \<noteq> ''borderRadius'' \<Longrightarrow> name \<noteq> ''grids'' \<Longrightarrow>
     Provider theme themeCtx name = Some v"
  by (simp add: Provider_def toDefaultTheme_def spread_def)

lemma spread_absorbed: "dom a \<subseteq> dom b \<Longrightarrow> spread a b = b"
  by (rule ext) (auto simp: spread_def map_add_def split: option.splits)

lemma toDefaultTheme_idem: "toDefaultTheme (toDefaultTheme theme) = toDefaultTheme theme"
  by (rule ext)
     (simp add: toDefaultTheme_def getProp_def defaultBorderRadius_def gapValues_def)

lemma Provider_no_new_name:
  "dom theme \<subseteq> dom (toDefaultTheme ctx) \<Longrightarrow>
     Provider theme (toDefaultTheme ctx) = toDefaultTheme ctx"
  by (simp add: Provider_def spread_absorbed toDefaultTheme_idem)

text \<open>
  Claim C9 at a concrete input: a \<^verbatim>\<open>theme\<close> prop that sets \<^verbatim>\<open>primary\<close> to black, under
  the default context. The value handed down has the colour of the context, and is the
  context's theme unchanged: the prop has no effect.
\<close>

theorem Provider_context_overrides_theme_prop:
  "Provider [''primary'' \<mapsto> Str ''#000000''] (toDefaultTheme defaultTheme) ''primary'' =
     Some (Str ''#FFFFFF'') \<and>
   Provider [''primary'' \<mapsto> Str ''#000000''] (toDefaultTheme defaultTheme) =
     toDefaultTheme defaultTheme"
proof -
  have p: "toDefaultTheme defaultTheme ''primary'' = Some (Str ''#FFFFFF'')"
    by (simp add: toDefaultTheme_def defaultTheme_def spread_def lightTheme_def)
  then have "dom [''primary'' \<mapsto> Str ''#000000''] \<subseteq> dom (toDefaultTheme defaultTheme)"
    by auto
  then have "Provider [''primary'' \<mapsto> Str ''#000000''] (toDefaultTheme defaultTheme) =
     toDefaultTheme defaultTheme"
    by (rule Provider_no_new_name)
  then show ?thesis using p by simp
qed

end
